theory Spec2Isabelle
  imports Main "HOL-Library.Word" "HOL-Library.Sublist" "HOL-Library.Monad_Syntax"
begin

section \<open>Buffers and hexadecimal text\<close>

text \<open>
  A Node \<open>Buffer\<close> is a list of bytes. \<open>buf.toString('hex')\<close> writes two lower-case
  hexadecimal digits per byte; \<open>Buffer.from(s, 'hex')\<close> reads pairs of hexadecimal
  digits (either case) and stops at the first pair that is not hexadecimal, dropping
  the rest of the text, a trailing single character included.
\<close>

type_synonym bytes = "8 word list"

definition hex_digit :: "nat \<Rightarrow> char" where
  "hex_digit n = ''0123456789abcdef'' ! n"

definition hex_val :: "char \<Rightarrow> nat option" where
  "hex_val c = map_of
     [(CHR ''0'', 0), (CHR ''1'', 1), (CHR ''2'', 2), (CHR ''3'', 3), (CHR ''4'', 4),
      (CHR ''5'', 5), (CHR ''6'', 6), (CHR ''7'', 7), (CHR ''8'', 8), (CHR ''9'', 9),
      (CHR ''a'', 10), (CHR ''b'', 11), (CHR ''c'', 12), (CHR ''d'', 13), (CHR ''e'', 14),
      (CHR ''f'', 15), (CHR ''A'', 10), (CHR ''B'', 11), (CHR ''C'', 12), (CHR ''D'', 13),
      (CHR ''E'', 14), (CHR ''F'', 15)] c"

definition byte_to_hex :: "8 word \<Rightarrow> string" where
  "byte_to_hex b = [hex_digit (unat b div 16), hex_digit (unat b mod 16)]"

definition to_hex :: "bytes \<Rightarrow> string" where
  "to_hex bs = concat (map byte_to_hex bs)"

fun from_hex :: "string \<Rightarrow> bytes" where
  "from_hex (a # b # cs) =
     (case (hex_val a, hex_val b) of
        (Some h, Some l) \<Rightarrow> word_of_nat (16 * h + l) # from_hex cs
      | _ \<Rightarrow> [])"
| "from_hex _ = []"

text \<open>\<open>String.prototype.includes\<close>: the pattern occurs somewhere in the text.\<close>

fun str_includes :: "string \<Rightarrow> string \<Rightarrow> bool" where
  "str_includes [] pat = (pat = [])"
| "str_includes (c # cs) pat = (prefix pat (c # cs) \<or> str_includes cs pat)"

text \<open>JavaScript truthiness of a value that is a string, \<open>null\<close> or \<open>undefined\<close>:
  only a non-empty string is truthy.\<close>

fun truthy :: "string option \<Rightarrow> bool" where
  "truthy None = False"
| "truthy (Some s) = (s \<noteq> [])"


section \<open>The runtime's primitives\<close>

text \<open>
  The controllers call Node's \<open>crypto\<close> and \<open>http\<close> modules, \<open>bcryptjs\<close> and
  \<open>speakeasy\<close>. None of them is code of the repository, so each enters the model as
  a field of the record \<open>prims\<close>, which the definitions that need it take as their
  first argument.
  Random draws (\<open>crypto.randomBytes\<close>, \<open>uuidv4\<close>) and the clock (\<open>Date.now()\<close>)
  are explicit arguments of the function that makes them.

  The outcome of an AES-256-GCM decryption distinguishes where Node throws:
  \<open>createDecipheriv\<close> and \<open>setAuthTag\<close> run before the \<open>try\<close> block of
  \<open>decryptFile\<close>, \<open>update\<close> and \<open>final\<close> inside it.
\<close>

datatype gcm_outcome =
  Plain bytes
| Final_throws string
| Setup_throws string

record prims =
  gcm_encrypt :: "bytes \<Rightarrow> bytes \<Rightarrow> bytes \<Rightarrow> bytes \<times> bytes"
  gcm_decrypt :: "bytes \<Rightarrow> bytes \<Rightarrow> bytes \<Rightarrow> bytes \<Rightarrow> gcm_outcome"
  pbkdf2 :: "string \<Rightarrow> bytes \<Rightarrow> nat \<Rightarrow> nat \<Rightarrow> bytes"
  sha256 :: "bytes \<Rightarrow> bytes"
  rsa_oaep_encrypt :: "string \<Rightarrow> bytes \<Rightarrow> string + string"
  bcrypt_compare :: "string \<Rightarrow> string \<Rightarrow> bool"
  totp_verify :: "string \<Rightarrow> string \<Rightarrow> int \<Rightarrow> bool"
  valid_header_value :: "string \<Rightarrow> bool"

text \<open>
  \<^item> \<open>gcm_encrypt key iv plain\<close> is the pair (ciphertext, authentication tag);
  \<^item> \<open>gcm_decrypt key iv tag cipher\<close> is the outcome of deciphering;
  \<^item> \<open>pbkdf2 password salt iterations keylen\<close> with HMAC-SHA256;
  \<^item> \<open>rsa_oaep_encrypt pem data\<close> is \<open>crypto.publicEncrypt\<close> with OAEP and
    SHA-256, already in base64, or the message of the exception it throws;
  \<^item> \<open>bcrypt_compare candidate hash\<close>; \<open>totp_verify secret token now\<close> with a
    window of one step;
  \<^item> \<open>valid_header_value v\<close>: \<open>res.setHeader\<close> accepts the value (it throws on a
    character that a header cannot carry).
\<close>

section \<open>utils/encryption.js\<close>

definition KEY_LENGTH :: nat where "KEY_LENGTH = 32"
definition IV_LENGTH :: nat where "IV_LENGTH = 12"

text \<open>
  What the model assumes of AES-256-GCM where a property needs it: under one 32-byte
  key and one 12-byte vector, deciphering the ciphertext with its tag gives the
  plaintext back.
\<close>

definition gcm_inverts :: "prims \<Rightarrow> bool" where
  "gcm_inverts pr \<longleftrightarrow>
     (\<forall>key v plain. length key = KEY_LENGTH \<longrightarrow> length v = IV_LENGTH \<longrightarrow>
        gcm_decrypt pr key v (snd (gcm_encrypt pr key v plain)) (fst (gcm_encrypt pr key v plain))
          = Plain plain)"

text \<open>An exception is the message of its \<open>Error\<close>.\<close>

type_synonym js_error = string

definition key_length_error :: js_error where
  "key_length_error = ''Key must be 32 bytes (256 bits)''"

definition AUTH_FAILED :: js_error where
  "AUTH_FAILED = ''AUTH_FAILED: Decryption authentication failed''"

record encrypted =
  encryptedData :: bytes
  enc_iv :: bytes
  enc_authTag :: bytes

text \<open>\<open>encryptFile(plainBuffer, key)\<close>; \<open>fresh_iv\<close> is the value of \<open>generateIV()\<close>.\<close>

definition encryptFile :: "prims \<Rightarrow> bytes \<Rightarrow> bytes \<Rightarrow> bytes \<Rightarrow> js_error + encrypted" where
  "encryptFile pr fresh_iv plainBuffer key =
     (if length key \<noteq> KEY_LENGTH then Inl key_length_error
      else case gcm_encrypt pr key fresh_iv plainBuffer of
        (ct, tag) \<Rightarrow> Inr \<lparr>encryptedData = ct, enc_iv = fresh_iv, enc_authTag = tag\<rparr>)"

text \<open>\<open>decryptFile(encryptedBuffer, iv, authTag, key)\<close>.\<close>

definition decryptFile :: "prims \<Rightarrow> bytes \<Rightarrow> bytes \<Rightarrow> bytes \<Rightarrow> bytes \<Rightarrow> js_error + bytes" where
  "decryptFile pr encryptedBuffer iv_b authTag_b key =
     (if length key \<noteq> KEY_LENGTH then Inl key_length_error
      else case gcm_decrypt pr key iv_b authTag_b encryptedBuffer of
        Setup_throws m \<Rightarrow> Inl m
      | Final_throws m \<Rightarrow>
          (if str_includes m ''Unsupported state'' \<or> str_includes m ''auth''
           then Inl AUTH_FAILED else Inl m)
      | Plain p \<Rightarrow> Inr p)"

definition encryptKey :: "prims \<Rightarrow> bytes \<Rightarrow> bytes \<Rightarrow> bytes \<Rightarrow> js_error + encrypted" where
  "encryptKey pr fresh_iv fileKey masterKey = encryptFile pr fresh_iv fileKey masterKey"

definition decryptKey :: "prims \<Rightarrow> bytes \<Rightarrow> bytes \<Rightarrow> bytes \<Rightarrow> bytes \<Rightarrow> js_error + bytes" where
  "decryptKey pr encryptedKey_b iv_b authTag_b masterKey =
     decryptFile pr encryptedKey_b iv_b authTag_b masterKey"

definition calculateHash :: "prims \<Rightarrow> bytes \<Rightarrow> string" where
  "calculateHash pr buffer = to_hex (sha256 pr buffer)"

text \<open>\<open>crypto.timingSafeEqual\<close> throws a \<open>RangeError\<close> on buffers of different
  lengths.\<close>

definition timingSafeEqual :: "bytes \<Rightarrow> bytes \<Rightarrow> js_error + bool" where
  "timingSafeEqual a b =
     (if length a \<noteq> length b then Inl ''Input buffers must have the same byte length''
      else Inr (a = b))"

definition verifyIntegrity :: "prims \<Rightarrow> bytes \<Rightarrow> string \<Rightarrow> js_error + bool" where
  "verifyIntegrity pr buffer expectedHash =
     timingSafeEqual (from_hex (calculateHash pr buffer)) (from_hex expectedHash)"

section \<open>utils/keyDerivation.js\<close>

definition ITERATIONS :: nat where "ITERATIONS = 100000"

definition deriveKey :: "prims \<Rightarrow> string \<Rightarrow> string \<Rightarrow> bytes" where
  "deriveKey pr password_s salt = pbkdf2 pr password_s (from_hex salt) ITERATIONS KEY_LENGTH"

text \<open>\<open>generateSalt()\<close> on the 32 random bytes it draws.\<close>

definition generateSalt :: "bytes \<Rightarrow> string" where
  "generateSalt random32 = to_hex random32"

text \<open>\<open>generateExpiringToken(expiryMinutes)\<close> on its random bytes and the clock.\<close>

definition generateExpiringToken :: "bytes \<Rightarrow> int \<Rightarrow> int \<Rightarrow> string \<times> int" where
  "generateExpiringToken random32 now expiryMinutes =
     (to_hex random32, now + expiryMinutes * 60 * 1000)"

section \<open>utils/keyExchange.js\<close>






section \<open>Responses, audit events and other effects\<close>

text \<open>
  \<open>res.status(n).json({success, message, data})\<close> is \<open>Json n success message data\<close>;
  \<open>res.status(n).send(buffer)\<close> with the headers set before it is \<open>Send\<close>.
\<close>

datatype 'a response =
  Json (status: nat) (success: bool) (message: string) (data: "'a option")
| Send (status: nat) (headers: "(string \<times> string) list") (body: bytes)

text \<open>The argument of \<open>AuditLog.log\<close>, without the client address and user agent.\<close>

record audit =
  actorId :: nat
  actorUsername :: string
  actorRole :: string
  action :: string
  target :: nat
  targetType :: string
  audit_status :: string
  details :: "(string \<times> string) list"

text \<open>A signed JWT is the payload it carries.\<close>

datatype jwt = MfaToken nat | AccessToken nat string

text \<open>
  What a handler does besides answering and writing to the stores, in order:
  calls of \<open>AuditLog.log\<close> (which catches its own errors), calls of
  \<open>bcrypt.compare\<close>, and cookies set or cleared.
\<close>

datatype effect =
  Log audit
| Compare string string
| SetCookie string jwt nat
| ClearCookie string

section \<open>models/User.js\<close>

text \<open>
  A user document. \<open>timestamps: true\<close> in the schema options makes Mongoose keep
  \<open>createdAt\<close> and \<open>updatedAt\<close>. Dates are milliseconds since the epoch. The
  schema's setters (\<open>trim\<close>, \<open>lowercase\<close>) are not modelled: names and addresses
  are taken as already normalised.
\<close>

record user =
  uid :: nat
  username :: string
  email :: string
  password :: string
  role :: string
  mfaSecret :: string
  mfaEnabled :: bool
  mfaVerified :: bool
  encryptionSalt :: "string option"
  ecdhPublicKey :: "string option"
  ecdhPrivateKey :: "string option"
  lastLogin :: "int option"
  loginAttempts :: int
  lockUntil :: "int option"
  user_createdAt :: int
  user_updatedAt :: int

text \<open>The collection is the list of its documents in insertion order.\<close>

definition User_findOne :: "(user \<Rightarrow> bool) \<Rightarrow> user list \<Rightarrow> user option" where
  "User_findOne q us = List.find q us"

definition User_findById :: "nat \<Rightarrow> user list \<Rightarrow> user option" where
  "User_findById i us = User_findOne (\<lambda>u. uid u = i) us"

text \<open>\<open>doc.save()\<close> and \<open>doc.updateOne(...)\<close> write the document with the same
  \<open>_id\<close> and stamp \<open>updatedAt\<close>.\<close>

definition User_save :: "int \<Rightarrow> user \<Rightarrow> user list \<Rightarrow> user list" where
  "User_save now u us =
     map (\<lambda>v. if uid v = uid u then u\<lparr>user_updatedAt := now\<rparr> else v) us"

definition comparePassword :: "prims \<Rightarrow> user \<Rightarrow> string \<Rightarrow> bool" where
  "comparePassword pr u candidatePassword = bcrypt_compare pr candidatePassword (password u)"

definition isLocked :: "int \<Rightarrow> user \<Rightarrow> bool" where
  "isLocked now u = (case lockUntil u of None \<Rightarrow> False | Some l \<Rightarrow> l > now)"

text \<open>\<open>incrementLoginAttempts\<close>: the document after the update it sends.\<close>

definition incrementLoginAttempts :: "int \<Rightarrow> user \<Rightarrow> user" where
  "incrementLoginAttempts now u =
     (case lockUntil u of
        Some l \<Rightarrow>
          if l < now then u\<lparr>loginAttempts := 1, lockUntil := None\<rparr>
          else if loginAttempts u + 1 \<ge> 5
            then u\<lparr>loginAttempts := loginAttempts u + 1,
                   lockUntil := Some (now + 2 * 60 * 60 * 1000)\<rparr>
            else u\<lparr>loginAttempts := loginAttempts u + 1\<rparr>
      | None \<Rightarrow>
          if loginAttempts u + 1 \<ge> 5
            then u\<lparr>loginAttempts := loginAttempts u + 1,
                   lockUntil := Some (now + 2 * 60 * 60 * 1000)\<rparr>
            else u\<lparr>loginAttempts := loginAttempts u + 1\<rparr>)"

section \<open>controllers/authController.js\<close>

datatype auth_data =
  Registered nat string string string string
| MfaRequired nat
| LoggedIn nat string string string bool

text \<open>
  What \<open>register\<close> draws or is handed by its libraries: the new \<open>_id\<close>, the
  base32 TOTP secret, the bytes of the salt, the RSA key pair, the bcrypt hash of the
  password (the pre-save hook), whether the schema's validators accept the document,
  and the QR code of \<open>generateMFAQRCode\<close> or its exception.
\<close>

record register_env =
  new_uid :: nat
  mfa_base32 :: string
  salt_bytes :: bytes
  rsa_publicKey :: string
  rsa_privateKey :: string
  password_hash :: string
  schema_accepts :: bool
  qrCode :: "js_error + string"

record register_body =
  rb_username :: "string option"
  rb_email :: "string option"
  rb_password :: "string option"
  rb_role :: "string option"

definition user_audit :: "user \<Rightarrow> string \<Rightarrow> string \<Rightarrow> (string \<times> string) list \<Rightarrow> effect" where
  "user_audit u act st det =
     Log \<lparr>actorId = uid u, actorUsername = username u, actorRole = role u, action = act,
          target = uid u, targetType = ''user'', audit_status = st, details = det\<rparr>"

definition register ::
  "register_env \<Rightarrow> int \<Rightarrow> user list \<Rightarrow> register_body \<Rightarrow>
     auth_data response \<times> user list \<times> effect list" where
  "register env now us b =
     (if \<not> truthy (rb_username b) \<or> \<not> truthy (rb_email b) \<or> \<not> truthy (rb_password b)
      then (Json 400 False ''Please provide username, email, and password.'' None, us, [])
      else case (rb_username b, rb_email b, rb_password b) of
        (Some un, Some em, Some pw) \<Rightarrow>
          if length pw < 8
          then (Json 400 False ''Password must be at least 8 characters long.'' None, us, [])
          else if User_findOne (\<lambda>u. email u = em \<or> username u = un) us \<noteq> None
          then (Json 400 False ''User with this email or username already exists.'' None, us, [])
          else
            let r = (case rb_role b of None \<Rightarrow> ''guest'' | Some x \<Rightarrow> x);
                allowedRole = (if r \<in> set [''admin'', ''premium'', ''guest''] then r else ''guest'')
            in if allowedRole = ''admin'' \<and> User_findOne (\<lambda>u. role u = ''admin'') us \<noteq> None
               then (Json 400 False ''Admin account already exists. Only one admin is allowed.'' None,
                     us, [])
               else if \<not> schema_accepts env
               then (Json 500 False ''Registration failed. Please try again.'' None, us, [])
               else
                 let u = \<lparr>uid = new_uid env, username = un, email = em,
                          password = password_hash env, role = allowedRole,
                          mfaSecret = mfa_base32 env, mfaEnabled = True, mfaVerified = False,
                          encryptionSalt = Some (generateSalt (salt_bytes env)),
                          ecdhPublicKey = Some (rsa_publicKey env),
                          ecdhPrivateKey = Some (rsa_privateKey env),
                          lastLogin = None, loginAttempts = 0, lockUntil = None,
                          user_createdAt = now, user_updatedAt = now\<rparr>
                 in case qrCode env of
                      Inl e \<Rightarrow>
                        (Json 500 False ''Registration failed. Please try again.'' None, us @ [u], [])
                    | Inr qr \<Rightarrow>
                        (Json 201 True ''Registration successful. Please set up MFA.''
                           (Some (Registered (uid u) (username u) (email u) (role u) (mfaSecret u))),
                         us @ [u], [user_audit u ''USER_CREATED'' ''SUCCESS'' []])
      | _ \<Rightarrow> (Json 400 False ''Please provide username, email, and password.'' None, us, []))"

definition dummy_hash :: string where
  "dummy_hash = ''$2a$12$dummy.hash.to.prevent.timing.attacks''"

definition login ::
  "prims \<Rightarrow> int \<Rightarrow> user list \<Rightarrow> string option \<Rightarrow> string option \<Rightarrow>
     auth_data response \<times> user list \<times> effect list" where
  "login pr now us email_o password_o =
     (case (email_o, password_o) of
        (Some em, Some pw) \<Rightarrow>
          if em = [] \<or> pw = []
          then (Json 400 False ''Please provide email and password.'' None, us, [])
          else (case User_findOne (\<lambda>u. email u = em) us of
            None \<Rightarrow>
              (Json 401 False ''Invalid credentials.'' None, us, [Compare pw dummy_hash])
          | Some u \<Rightarrow>
              if isLocked now u
              then (Json 423 False ''Account is temporarily locked. Try again later.'' None, us,
                    [user_audit u ''LOGIN_FAILED'' ''DENIED'' [(''reason'', ''Account locked'')]])
              else if \<not> comparePassword pr u pw
              then (Json 401 False ''Invalid credentials.'' None,
                    User_save now (incrementLoginAttempts now u) us,
                    [Compare pw (password u),
                     user_audit u ''LOGIN_FAILED'' ''FAILED'' [(''reason'', ''Invalid password'')]])
              else (Json 200 True ''Password verified. Please enter MFA code.''
                      (Some (MfaRequired (uid u))),
                    us,
                    [Compare pw (password u),
                     SetCookie ''mfaToken'' (MfaToken (uid u)) (5 * 60 * 1000)]))
      | _ \<Rightarrow> (Json 400 False ''Please provide email and password.'' None, us, []))"



section \<open>controllers/adminController.js\<close>

text \<open>\<open>updateUserRole\<close> and \<open>unlockUser\<close>; \<open>actor\<close> is \<open>req.user\<close>, an
  administrator by the route's middleware.\<close>

definition admin_audit ::
  "user \<Rightarrow> string \<Rightarrow> nat \<Rightarrow> (string \<times> string) list \<Rightarrow> effect" where
  "admin_audit actor act tgt det =
     Log \<lparr>actorId = uid actor, actorUsername = username actor, actorRole = role actor,
          action = act, target = tgt, targetType = ''user'', audit_status = ''SUCCESS'',
          details = det\<rparr>"

definition updateUserRole ::
  "int \<Rightarrow> user list \<Rightarrow> user \<Rightarrow> nat \<Rightarrow> string \<Rightarrow>
     unit response \<times> user list \<times> effect list" where
  "updateUserRole now us actor i new_role =
     (if new_role \<notin> set [''admin'', ''premium'', ''guest'']
      then (Json 400 False ''Invalid role specified.'' None, us, [])
      else case User_findById i us of
        None \<Rightarrow> (Json 404 False ''User not found.'' None, us, [])
      | Some u \<Rightarrow>
          (Json 200 True ''User role updated successfully.'' (Some ()),
           User_save now (u\<lparr>role := new_role\<rparr>) us,
           [admin_audit actor ''ROLE_CHANGED'' (uid u)
              [(''username'', username u), (''oldRole'', role u), (''newRole'', new_role)]]))"

definition unlockUser ::
  "int \<Rightarrow> user list \<Rightarrow> user \<Rightarrow> nat \<Rightarrow> unit response \<times> user list \<times> effect list" where
  "unlockUser now us actor i =
     (case User_findById i us of
        None \<Rightarrow> (Json 404 False ''User not found.'' None, us, [])
      | Some u \<Rightarrow>
          (Json 200 True ''User account unlocked successfully.'' None,
           User_save now (u\<lparr>loginAttempts := 0, lockUntil := None\<rparr>) us,
           [admin_audit actor ''ACCOUNT_LOCKED'' (uid u)
              [(''action'', ''unlocked''), (''username'', username u)]]))"

section \<open>models/File.js\<close>

text \<open>
  A file document; \<open>timestamps: true\<close> in the schema options adds \<open>createdAt\<close> and
  \<open>updatedAt\<close>, and Mongoose stamps \<open>updatedAt\<close> whenever a changed document
  is saved.
\<close>

record stored_file =
  fid :: nat
  originalName :: string
  mimeType :: string
  size_bytes :: nat
  encryptedPath :: string
  owner :: nat
  accessLevel :: string
  iv :: string
  authTag :: string
  encryptedKey :: string
  fileSalt :: "string option"
  sha256Hash :: string
  keyExchangeEnabled :: bool
  ownerPublicKey :: "string option"
  shareToken :: "string option"
  shareExpiry :: "int option"
  downloadCount :: int
  description :: string
  tags :: "string list"
  isDeleted :: bool
  deletedAt :: "int option"
  createdAt :: int
  updatedAt :: int

text \<open>
  \<open>fileSchema.pre(/^find/, ...)\<close> adds \<open>isDeleted: {$ne: true}\<close> to the queries
  whose name starts with \<open>find\<close>: \<open>find\<close>, \<open>findOne\<close> and \<open>findById\<close> (a
  \<open>findOne\<close> on \<open>_id\<close>). \<open>countDocuments\<close> is not one of them.
\<close>

definition File_find :: "(stored_file \<Rightarrow> bool) \<Rightarrow> stored_file list \<Rightarrow> stored_file list" where
  "File_find q fs = filter (\<lambda>f. isDeleted f \<noteq> True \<and> q f) fs"

definition File_findOne :: "(stored_file \<Rightarrow> bool) \<Rightarrow> stored_file list \<Rightarrow> stored_file option" where
  "File_findOne q fs = List.find (\<lambda>f. isDeleted f \<noteq> True \<and> q f) fs"

definition File_findById :: "nat \<Rightarrow> stored_file list \<Rightarrow> stored_file option" where
  "File_findById i fs = File_findOne (\<lambda>f. fid f = i) fs"

definition File_countDocuments :: "(stored_file \<Rightarrow> bool) \<Rightarrow> stored_file list \<Rightarrow> nat" where
  "File_countDocuments q fs = length (filter q fs)"

definition File_save :: "int \<Rightarrow> stored_file \<Rightarrow> stored_file list \<Rightarrow> stored_file list" where
  "File_save now f fs = map (\<lambda>g. if fid g = fid f then f\<lparr>updatedAt := now\<rparr> else g) fs"

section \<open>The wrapped key as JSON text\<close>

text \<open>
  \<open>uploadFile\<close> stores \<open>JSON.stringify({data, iv, authTag})\<close> of three hexadecimal
  texts and \<open>downloadFile\<close> reads it back with \<open>JSON.parse\<close>. The writer below
  produces the text \<open>JSON.stringify\<close> produces for texts that need no escaping; the
  reader accepts that form (the three members in this order, no white space, no
  escapes) and reads every other text as the \<open>SyntaxError\<close> of \<open>JSON.parse\<close>.
\<close>

record wrapped_key =
  wk_data :: string
  wk_iv :: string
  wk_authTag :: string

definition dquote :: char where "dquote = CHR 0x22"

definition json_text :: "string \<Rightarrow> string" where
  "json_text t = dquote # t @ [dquote]"

text \<open>A text that \<open>JSON.stringify\<close> writes between quotes as it is.\<close>

definition plain_text :: "string \<Rightarrow> bool" where
  "plain_text t \<longleftrightarrow> dquote \<notin> set t \<and> CHR 0x5C \<notin> set t"

definition JSON_stringify_key :: "wrapped_key \<Rightarrow> string" where
  "JSON_stringify_key w =
     ''{'' @ json_text ''data'' @ '':'' @ json_text (wk_data w) @ '','' @
     json_text ''iv'' @ '':'' @ json_text (wk_iv w) @ '','' @
     json_text ''authTag'' @ '':'' @ json_text (wk_authTag w) @ ''}''"

definition expect :: "string \<Rightarrow> string \<Rightarrow> string option" where
  "expect p t = (if prefix p t then Some (drop (length p) t) else None)"

definition read_text :: "string \<Rightarrow> (string \<times> string) option" where
  "read_text t =
     (case t of
        [] \<Rightarrow> None
      | c # r \<Rightarrow>
          if c \<noteq> dquote then None
          else (case dropWhile (\<lambda>x. x \<noteq> dquote) r of
                  [] \<Rightarrow> None
                | _ # rest \<Rightarrow>
                    let b = takeWhile (\<lambda>x. x \<noteq> dquote) r
                    in if CHR 0x5C \<in> set b then None else Some (b, rest)))"

definition read_member :: "string \<Rightarrow> string \<Rightarrow> (string \<times> string) option" where
  "read_member name t =
     do { (k, r) \<leftarrow> read_text t;
          r' \<leftarrow> (if k = name then expect '':'' r else None);
          read_text r' }"

definition JSON_parse_key :: "string \<Rightarrow> wrapped_key option" where
  "JSON_parse_key t =
     do { t1 \<leftarrow> expect ''{'' t;
          (d, t2) \<leftarrow> read_member ''data'' t1;
          t3 \<leftarrow> expect '','' t2;
          (i, t4) \<leftarrow> read_member ''iv'' t3;
          t5 \<leftarrow> expect '','' t4;
          (a, t6) \<leftarrow> read_member ''authTag'' t5;
          (if t6 = ''}'' then Some \<lparr>wk_data = d, wk_iv = i, wk_authTag = a\<rparr> else None) }"

section \<open>controllers/fileController.js\<close>

text \<open>The upload directory is a map from file names to contents.\<close>

type_synonym blobs = "string \<rightharpoonup> bytes"

text \<open>\<open>a || b\<close> on values that are strings or missing.\<close>

definition js_or :: "string option \<Rightarrow> string option \<Rightarrow> string option" where
  "js_or a b = (if truthy a then a else b)"

definition file_audit ::
  "user \<Rightarrow> string \<Rightarrow> stored_file \<Rightarrow> string \<Rightarrow> (string \<times> string) list \<Rightarrow> effect" where
  "file_audit ru act f st det =
     Log \<lparr>actorId = uid ru, actorUsername = username ru, actorRole = role ru, action = act,
          target = fid f, targetType = ''file'', audit_status = st, details = det\<rparr>"

subsection \<open>uploadFile\<close>

text \<open>The file multer hands over, and what \<open>uploadFile\<close> draws: the new \<open>_id\<close>,
  the file key, the two initialisation vectors, the bytes of the salt and the UUID.\<close>

record upload =
  originalname :: string
  mimetype :: string
  up_size :: nat
  buffer :: bytes

record upload_env =
  new_fid :: nat
  fresh_fileKey :: bytes
  fresh_file_iv :: bytes
  fresh_salt :: bytes
  fresh_key_iv :: bytes
  uuid :: string

datatype upload_data = Uploaded nat string nat string int string

text \<open>The validators of the schema that \<open>File.create\<close> runs on the document
  \<open>uploadFile\<close> builds.\<close>

definition file_validates :: "stored_file \<Rightarrow> bool" where
  "file_validates f \<longleftrightarrow>
     originalName f \<noteq> [] \<and> mimeType f \<noteq> [] \<and> accessLevel f \<in> set [''vault'', ''public''] \<and>
     length (description f) \<le> 500"

text \<open>The document \<open>uploadFile\<close> hands to \<open>File.create\<close>, with the defaults of the
  schema.\<close>

definition upload_document ::
  "upload_env \<Rightarrow> int \<Rightarrow> user \<Rightarrow> upload \<Rightarrow> string option \<Rightarrow> string option \<Rightarrow> string \<Rightarrow>
     encrypted \<Rightarrow> encrypted \<Rightarrow> string \<Rightarrow> stored_file" where
  "upload_document env now ru up accessLevel_o description_o hash encFile encryptedKeyData salt =
     \<lparr>fid = new_fid env,
      originalName = originalname up,
      mimeType = mimetype up,
      size_bytes = up_size up,
      encryptedPath = uuid env @ ''.enc'',
      owner = uid ru,
      accessLevel = (case accessLevel_o of None \<Rightarrow> ''vault'' | Some a \<Rightarrow> a),
      iv = to_hex (enc_iv encFile),
      authTag = to_hex (enc_authTag encFile),
      encryptedKey = JSON_stringify_key
        \<lparr>wk_data = to_hex (encryptedData encryptedKeyData),
         wk_iv = to_hex (enc_iv encryptedKeyData),
         wk_authTag = to_hex (enc_authTag encryptedKeyData)\<rparr>,
      fileSalt = Some salt,
      sha256Hash = hash,
      keyExchangeEnabled = True,
      ownerPublicKey = ecdhPublicKey ru,
      shareToken = None,
      shareExpiry = None,
      downloadCount = 0,
      description = (case description_o of None \<Rightarrow> [] | Some d \<Rightarrow> d),
      tags = [],
      isDeleted = False,
      deletedAt = None,
      createdAt = now,
      updatedAt = now\<rparr>"

definition uploadFile ::
  "prims \<Rightarrow> upload_env \<Rightarrow> int \<Rightarrow> user list \<Rightarrow> stored_file list \<Rightarrow> blobs \<Rightarrow> user \<Rightarrow>
     upload option \<Rightarrow> string option \<Rightarrow> string option \<Rightarrow> string option \<Rightarrow> string option \<Rightarrow>
     upload_data response \<times> stored_file list \<times> blobs \<times> effect list" where
  "uploadFile pr env now us fs bl ru file_o accessLevel_o description_o body_pw header_pw =
     (case file_o of
        None \<Rightarrow> (Json 400 False ''No file uploaded.'' None, fs, bl, [])
      | Some up \<Rightarrow>
        (case User_findById (uid ru) us of
           None \<Rightarrow> (Json 500 False ''File upload failed.'' None, fs, bl, [])
         | Some u \<Rightarrow>
           if \<not> truthy (encryptionSalt u)
           then (Json 500 False ''User encryption not configured.'' None, fs, bl, [])
           else
             let hash = calculateHash pr (buffer up);
                 fileKey = fresh_fileKey env
             in (case encryptFile pr (fresh_file_iv env) (buffer up) fileKey of
                Inl e \<Rightarrow> (Json 500 False ''File upload failed.'' None, fs, bl, [])
              | Inr encFile \<Rightarrow>
                (case js_or body_pw header_pw of
                   None \<Rightarrow> (Json 400 False ''Encryption password required.'' None, fs, bl, [])
                 | Some userPassword \<Rightarrow>
                   if userPassword = []
                   then (Json 400 False ''Encryption password required.'' None, fs, bl, [])
                   else
                     let salt = generateSalt (fresh_salt env);
                         masterKey = deriveKey pr userPassword salt
                     in (case encryptKey pr (fresh_key_iv env) fileKey masterKey of
                        Inl e \<Rightarrow> (Json 500 False ''File upload failed.'' None, fs, bl, [])
                      | Inr encryptedKeyData \<Rightarrow>
                          let bl' = bl(uuid env @ ''.enc'' \<mapsto> encryptedData encFile);
                              f = upload_document env now ru up accessLevel_o description_o hash
                                    encFile encryptedKeyData salt
                          in if \<not> file_validates f
                             then (Json 500 False ''File upload failed.'' None, fs, bl', [])
                             else
                               (Json 201 True ''File uploaded and encrypted successfully.''
                                  (Some (Uploaded (fid f) (originalName f) (size_bytes f)
                                           (accessLevel f) (createdAt f)
                                           (take 16 hash @ ''...''))),
                                fs @ [f], bl',
                                [file_audit ru ''FILE_UPLOAD'' f ''SUCCESS''
                                   [(''filename'', originalname up),
                                    (''accessLevel'', accessLevel f),
                                    (''algorithm'', ''AES-256-GCM'')]]))))))"

subsection \<open>downloadFile\<close>

datatype download_data = Integrity string string

text \<open>The access check on the access level and the ownership.\<close>

definition download_denied :: "user \<Rightarrow> stored_file \<Rightarrow> bool" where
  "download_denied ru f \<longleftrightarrow>
     accessLevel f = ''vault'' \<and> role ru \<noteq> ''admin'' \<and> owner f \<noteq> uid ru"

text \<open>
  The salt to derive the master key from: the file's own, else the owner's
  (\<open>owner?.encryptionSalt\<close>), else none.
\<close>

definition resolve_salt :: "user list \<Rightarrow> stored_file \<Rightarrow> string option" where
  "resolve_salt us f =
     (if truthy (fileSalt f) then fileSalt f
      else case User_findById (owner f) us of
        None \<Rightarrow> None
      | Some ow \<Rightarrow> if truthy (encryptionSalt ow) then encryptionSalt ow else None)"

definition download_headers :: "stored_file \<Rightarrow> (string \<times> string) list" where
  "download_headers f =
     [(''Content-Type'', mimeType f),
      (''Content-Disposition'', ''attachment; filename='' @ json_text (originalName f)),
      (''X-Integrity-Status'', ''PASSED''),
      (''X-Encryption-Algorithm'', ''AES-256-GCM'')]"

text \<open>
  The rest of \<open>downloadFile\<close> once the salt is known: derive the master key, unwrap
  the file key, read and decrypt the content, verify the digest, count the download
  and send. An exception outside the two inner \<open>try\<close> blocks (the JSON text, the read
  of the content, \<open>timingSafeEqual\<close>, a header) reaches the outer \<open>catch\<close>.
\<close>

definition download_with_salt ::
  "prims \<Rightarrow> int \<Rightarrow> stored_file list \<Rightarrow> blobs \<Rightarrow> user \<Rightarrow> stored_file \<Rightarrow> string \<Rightarrow> string \<Rightarrow>
     download_data response \<times> stored_file list \<times> effect list" where
  "download_with_salt pr now fs bl ru f userPassword saltToUse =
     (let masterKey = deriveKey pr userPassword saltToUse in
      case JSON_parse_key (encryptedKey f) of
        None \<Rightarrow> (Json 500 False ''File download failed.'' None, fs, [])
      | Some ek \<Rightarrow>
        (case decryptKey pr (from_hex (wk_data ek)) (from_hex (wk_iv ek))
                (from_hex (wk_authTag ek)) masterKey of
           Inl e \<Rightarrow> (Json 401 False ''Invalid decryption password.'' None, fs, [])
         | Inr fileKey \<Rightarrow>
           (case bl (encryptedPath f) of
              None \<Rightarrow> (Json 500 False ''File download failed.'' None, fs, [])
            | Some encData \<Rightarrow>
              (case decryptFile pr encData (from_hex (iv f)) (from_hex (authTag f)) fileKey of
                 Inl e \<Rightarrow>
                   (Json 500 False ''File integrity check failed. File may be corrupted.''
                      (Some (Integrity ''FAILED'' ''Encryption authentication failed'')),
                    fs,
                    [file_audit ru ''INTEGRITY_CHECK_FAILED'' f ''FAILED''
                       [(''reason'', ''GCM authentication failed'')]])
               | Inr decryptedData \<Rightarrow>
                 (case verifyIntegrity pr decryptedData (sha256Hash f) of
                    Inl e \<Rightarrow> (Json 500 False ''File download failed.'' None, fs, [])
                  | Inr integrityPassed \<Rightarrow>
                      if \<not> integrityPassed
                      then (Json 500 False
                              ''File integrity check failed. File has been tampered with.''
                              (Some (Integrity ''FAILED'' ''SHA-256 hash mismatch'')),
                            fs,
                            [file_audit ru ''INTEGRITY_CHECK_FAILED'' f ''FAILED'' []])
                      else
                        let f' = f\<lparr>downloadCount := downloadCount f + 1\<rparr>;
                            fs' = File_save now f' fs;
                            logs = [file_audit ru ''INTEGRITY_CHECK_PASSED'' f ''SUCCESS'' [],
                                    file_audit ru ''FILE_DOWNLOAD'' f' ''SUCCESS''
                                      [(''filename'', originalName f)]]
                        in if list_all (\<lambda>h. valid_header_value pr (snd h)) (download_headers f)
                           then (Send 200 (download_headers f) decryptedData, fs', logs)
                           else (Json 500 False ''File download failed.'' None, fs', logs))))))"

definition downloadFile ::
  "prims \<Rightarrow> int \<Rightarrow> user list \<Rightarrow> stored_file list \<Rightarrow> blobs \<Rightarrow> user \<Rightarrow> nat \<Rightarrow>
     string option \<Rightarrow> string option \<Rightarrow>
     download_data response \<times> stored_file list \<times> effect list" where
  "downloadFile pr now us fs bl ru i body_pw header_pw =
     (case File_findById i fs of
        None \<Rightarrow> (Json 404 False ''File not found.'' None, fs, [])
      | Some f \<Rightarrow>
          if download_denied ru f then (Json 403 False ''Access denied.'' None, fs, [])
          else (case js_or body_pw header_pw of
            None \<Rightarrow> (Json 400 False ''Decryption password required.'' None, fs, [])
          | Some userPassword \<Rightarrow>
              if userPassword = []
              then (Json 400 False ''Decryption password required.'' None, fs, [])
              else (case resolve_salt us f of
                None \<Rightarrow> (Json 500 False ''File encryption metadata missing.'' None, fs, [])
              | Some saltToUse \<Rightarrow>
                  download_with_salt pr now fs bl ru f userPassword saltToUse)))"

subsection \<open>getFiles\<close>

record file_view =
  fv_id :: nat
  fv_name :: string
  fv_size :: nat
  fv_mimeType :: string
  fv_accessLevel :: string
  fv_owner :: "string option"
  fv_isOwner :: bool
  fv_downloadCount :: int
  fv_createdAt :: int

record listing =
  l_files :: "file_view list"
  l_page :: int
  l_limit :: int
  l_total :: nat

text \<open>The query built from the role of the caller.\<close>

definition files_query :: "user \<Rightarrow> string option \<Rightarrow> stored_file \<Rightarrow> bool" where
  "files_query ru accessLevel_q f =
     (if role ru = ''admin''
      then (case accessLevel_q of
              None \<Rightarrow> True
            | Some a \<Rightarrow> a = [] \<or> accessLevel f = a)
      else if role ru = ''premium''
      then owner f = uid ru \<or> accessLevel f = ''public''
      else accessLevel f = ''public'')"

definition view_of :: "user list \<Rightarrow> user \<Rightarrow> stored_file \<Rightarrow> file_view" where
  "view_of us ru f =
     \<lparr>fv_id = fid f, fv_name = originalName f, fv_size = size_bytes f,
      fv_mimeType = mimeType f, fv_accessLevel = accessLevel f,
      fv_owner = map_option username (User_findById (owner f) us),
      fv_isOwner = (User_findById (owner f) us \<noteq> None \<and> owner f = uid ru),
      fv_downloadCount = downloadCount f, fv_createdAt = createdAt f\<rparr>"

text \<open>
  \<open>page\<close> and \<open>limit\<close> are the numbers the query parameters stand for (1 and 20
  when absent). The database refuses a negative skip; a limit of 0 is no limit and a
  negative one counts by its absolute value. \<open>pagination.pages\<close>, a floating-point
  quotient, is left out of the answer.
\<close>

definition getFiles ::
  "user list \<Rightarrow> stored_file list \<Rightarrow> user \<Rightarrow> string option \<Rightarrow> int \<Rightarrow> int \<Rightarrow> listing response" where
  "getFiles us fs ru accessLevel_q page limit =
     (if (page - 1) * limit < 0 then Json 500 False ''Failed to fetch files.'' None
      else
        let found = rev (sort_key createdAt (File_find (files_query ru accessLevel_q) fs));
            skipped = drop (nat ((page - 1) * limit)) found;
            files = (if limit = 0 then skipped else take (nat \<bar>limit\<bar>) skipped);
            total = File_countDocuments (files_query ru accessLevel_q) fs
        in Json 200 True [] (Some \<lparr>l_files = map (view_of us ru) files, l_page = page,
                                    l_limit = limit, l_total = total\<rparr>))"

subsection \<open>shareFile, deleteFile, getSharedFile\<close>

datatype share_data = Shared string string int string

text \<open>Only the owner or an administrator may share or delete.\<close>

definition not_owner_or_admin :: "user \<Rightarrow> stored_file \<Rightarrow> bool" where
  "not_owner_or_admin ru f \<longleftrightarrow> role ru \<noteq> ''admin'' \<and> owner f \<noteq> uid ru"

text \<open>\<open>shareFile\<close>; \<open>random32\<close> are the bytes of the token, \<open>frontend\<close> is
  \<open>FRONTEND_URL\<close> and \<open>qr\<close> the result of \<open>generateShareQRCode\<close>.\<close>

definition shareFile ::
  "bytes \<Rightarrow> string \<Rightarrow> (js_error + string) \<Rightarrow> int \<Rightarrow> stored_file list \<Rightarrow> user \<Rightarrow> nat \<Rightarrow>
     int option \<Rightarrow> share_data response \<times> stored_file list \<times> effect list" where
  "shareFile random32 frontend qr now fs ru i expiryMinutes_o =
     (case File_findById i fs of
        None \<Rightarrow> (Json 404 False ''File not found.'' None, fs, [])
      | Some f \<Rightarrow>
          if not_owner_or_admin ru f then (Json 403 False ''Access denied.'' None, fs, [])
          else
            let minutes = (case expiryMinutes_o of
                             None \<Rightarrow> 60
                           | Some m \<Rightarrow> if m = 0 then 60 else m);
                (tok, expiry) = generateExpiringToken random32 now minutes;
                f' = f\<lparr>shareToken := Some tok, shareExpiry := Some expiry\<rparr>;
                fs' = File_save now f' fs;
                shareUrl = frontend @ ''/share/'' @ tok
            in case qr of
                 Inl e \<Rightarrow> (Json 500 False ''Failed to generate share link.'' None, fs', [])
               | Inr code \<Rightarrow>
                   (Json 200 True ''Share link generated successfully.''
                      (Some (Shared shareUrl code expiry tok)),
                    fs',
                    [file_audit ru ''FILE_SHARE'' f' ''SUCCESS''
                       [(''filename'', originalName f)]]))"

text \<open>\<open>deleteFile\<close>: the soft delete, then \<open>fs.unlink\<close>, whose failure is only
  logged to the console.\<close>

definition deleteFile ::
  "int \<Rightarrow> stored_file list \<Rightarrow> blobs \<Rightarrow> user \<Rightarrow> nat \<Rightarrow>
     unit response \<times> stored_file list \<times> blobs \<times> effect list" where
  "deleteFile now fs bl ru i =
     (case File_findById i fs of
        None \<Rightarrow> (Json 404 False ''File not found.'' None, fs, bl, [])
      | Some f \<Rightarrow>
          if not_owner_or_admin ru f then (Json 403 False ''Access denied.'' None, fs, bl, [])
          else
            let f' = f\<lparr>isDeleted := True, deletedAt := Some now\<rparr>
            in (Json 200 True ''File deleted successfully.'' None,
                File_save now f' fs,
                bl(encryptedPath f := None),
                [file_audit ru ''FILE_DELETE'' f' ''SUCCESS''
                   [(''filename'', originalName f)]]))"

datatype shared_data = SharedFile nat string nat string "string option" "int option"

definition getSharedFile ::
  "int \<Rightarrow> user list \<Rightarrow> stored_file list \<Rightarrow> string \<Rightarrow> shared_data response" where
  "getSharedFile now us fs tok =
     (case File_findOne
             (\<lambda>f. shareToken f = Some tok \<and>
                  (case shareExpiry f of None \<Rightarrow> False | Some e \<Rightarrow> e > now)) fs of
        None \<Rightarrow> Json 404 False ''Share link expired or invalid.'' None
      | Some f \<Rightarrow>
          Json 200 True []
            (Some (SharedFile (fid f) (originalName f) (size_bytes f) (mimeType f)
                     (map_option username (User_findById (owner f) us)) (shareExpiry f))))"

subsection \<open>keyExchangeDownload\<close>




section \<open>A small instance of the primitives\<close>

text \<open>
  An instance of \<open>prims\<close> simple enough to compute with, on which the model runs
  on concrete inputs. Its cipher shifts every byte by the sum of the first bytes of
  the key and of the vector, and tags the result with sixteen copies of a checksum
  of the shift, the first byte and the length of the ciphertext; its digest is
  thirty-two copies of the first byte plus the length; its key derivation repeats the
  length of the password plus the first byte of the salt.
\<close>

fun first_byte :: "bytes \<Rightarrow> 8 word" where
  "first_byte [] = 0"
| "first_byte (b # bs) = b"

definition auth_error_message :: js_error where
  "auth_error_message = ''Unsupported state or unable to authenticate data''"

definition sample_tag :: "8 word \<Rightarrow> bytes \<Rightarrow> bytes" where
  "sample_tag m ct = replicate 16 (m + first_byte ct + word_of_nat (length ct))"

definition sample_gcm_encrypt :: "bytes \<Rightarrow> bytes \<Rightarrow> bytes \<Rightarrow> bytes \<times> bytes" where
  "sample_gcm_encrypt key iv_b plain =
     (let m = first_byte key + first_byte iv_b; ct = map (\<lambda>b. b + m) plain
      in (ct, sample_tag m ct))"

definition sample_gcm_decrypt :: "bytes \<Rightarrow> bytes \<Rightarrow> bytes \<Rightarrow> bytes \<Rightarrow> gcm_outcome" where
  "sample_gcm_decrypt key iv_b tag ct =
     (let m = first_byte key + first_byte iv_b
      in if length tag \<noteq> 16 then Setup_throws ''Invalid authentication tag length''
         else if tag = sample_tag m ct then Plain (map (\<lambda>b. b - m) ct)
         else Final_throws auth_error_message)"

definition sample_prims :: prims where
  "sample_prims =
     \<lparr>gcm_encrypt = sample_gcm_encrypt,
      gcm_decrypt = sample_gcm_decrypt,
      pbkdf2 = (\<lambda>pw salt iters keylen.
                  replicate keylen (word_of_nat (length pw) + first_byte salt)),
      sha256 = (\<lambda>b. replicate 32 (first_byte b + word_of_nat (length b))),
      rsa_oaep_encrypt = (\<lambda>pem d. if pem = ''bad'' then Inl ''unsupported'' else Inr (to_hex d)),
      bcrypt_compare = (\<lambda>candidate h. h = ''bcrypt:'' @ candidate),
      totp_verify = (\<lambda>secret tok now. tok = ''123456''),
      valid_header_value = (\<lambda>v. CHR 0x0A \<notin> set v)\<rparr>"

text \<open>Two accounts, and the upload of the nine bytes of \<open>HELLOWRLD\<close> as a public
  file under the password \<open>Sup3rSecret!\<close> at time 1000.\<close>

definition alice :: user where
  "alice = \<lparr>uid = 1, username = ''alice'', email = ''alice@example.org'',
     password = ''bcrypt:correct horse'', role = ''premium'', mfaSecret = ''JBSWY3DP'',
     mfaEnabled = True, mfaVerified = True, encryptionSalt = Some ''0a0b'',
     ecdhPublicKey = Some ''alice-public'', ecdhPrivateKey = Some ''alice-private'',
     lastLogin = None, loginAttempts = 0, lockUntil = None,
     user_createdAt = 0, user_updatedAt = 0\<rparr>"

definition bob :: user where
  "bob = \<lparr>uid = 2, username = ''bob'', email = ''bob@example.org'',
     password = ''bcrypt:tr0ub4dor'', role = ''guest'', mfaSecret = ''KRSXG5A='',
     mfaEnabled = True, mfaVerified = True, encryptionSalt = Some ''0c0d'',
     ecdhPublicKey = Some ''bob-public'', ecdhPrivateKey = Some ''bob-private'',
     lastLogin = None, loginAttempts = 0, lockUntil = None,
     user_createdAt = 0, user_updatedAt = 0\<rparr>"

definition hello :: upload where
  "hello = \<lparr>originalname = ''hello.txt'', mimetype = ''text/plain'', up_size = 9,
     buffer = [72, 69, 76, 76, 79, 87, 82, 76, 68]\<rparr>"

definition hello_env :: upload_env where
  "hello_env = \<lparr>new_fid = 1, fresh_fileKey = replicate 32 7, fresh_file_iv = replicate 12 1,
     fresh_salt = replicate 32 3, fresh_key_iv = replicate 12 2, uuid = ''u1''\<rparr>"

definition hello_upload ::
  "upload_data response \<times> stored_file list \<times> blobs \<times> effect list" where
  "hello_upload = uploadFile sample_prims hello_env 1000 [alice, bob] [] Map.empty alice
     (Some hello) (Some ''public'') None (Some ''Sup3rSecret!'') None"

definition hello_files :: "stored_file list" where
  "hello_files = fst (snd hello_upload)"

definition hello_blobs :: blobs where
  "hello_blobs = fst (snd (snd hello_upload))"

text \<open>The document and the content that the upload stores.\<close>

definition hello_file :: stored_file where
  "hello_file =
     \<lparr>fid = 1, originalName = ''hello.txt'', mimeType = ''text/plain'', size_bytes = 9,
      encryptedPath = ''u1.enc'', owner = 1, accessLevel = ''public'',
      iv = to_hex (replicate 12 1),
      authTag = to_hex (replicate 16 0x61),
      encryptedKey = JSON_stringify_key
        \<lparr>wk_data = to_hex (replicate 32 0x18), wk_iv = to_hex (replicate 12 2),
         wk_authTag = to_hex (replicate 16 0x49)\<rparr>,
      fileSalt = Some (to_hex (replicate 32 3)),
      sha256Hash = to_hex (replicate 32 0x51),
      keyExchangeEnabled = True, ownerPublicKey = Some ''alice-public'',
      shareToken = None, shareExpiry = None, downloadCount = 0, description = [],
      tags = [], isDeleted = False, deletedAt = None, createdAt = 1000, updatedAt = 1000\<rparr>"

definition hello_cipher :: bytes where
  "hello_cipher = [80, 77, 84, 84, 87, 95, 90, 84, 76]"

text \<open>A legacy document of the same content: no salt of its own, the file key
  wrapped under the key derived from the password and the salt of \<open>alice\<close>.\<close>

definition legacy_file :: stored_file where
  "legacy_file =
     hello_file\<lparr>fileSalt := None,
                encryptedKey := JSON_stringify_key
                  \<lparr>wk_data = to_hex (replicate 32 0x1F), wk_iv = to_hex (replicate 12 2),
                   wk_authTag = to_hex (replicate 16 0x57)\<rparr>\<rparr>"

text \<open>Registration requests that all ask for the role \<open>admin\<close>, what
  \<open>register\<close> draws for the \<open>n\<close>-th of them, and the account the first one
  creates at time 100.\<close>

definition admin_request :: "string \<Rightarrow> register_body" where
  "admin_request name =
     \<lparr>rb_username = Some name, rb_email = Some (name @ ''@example.org''),
      rb_password = Some ''correct horse'', rb_role = Some ''admin''\<rparr>"

definition reg_env :: "nat \<Rightarrow> register_env" where
  "reg_env n =
     \<lparr>new_uid = n, mfa_base32 = ''JBSWY3DP'', salt_bytes = replicate 32 5,
      rsa_publicKey = ''public-key'', rsa_privateKey = ''private-key'',
      password_hash = ''bcrypt:correct horse'', schema_accepts = True,
      qrCode = Inr ''data:image/png;base64,''\<rparr>"

definition root_user :: user where
  "root_user =
     \<lparr>uid = 1, username = ''root'', email = ''root@example.org'',
      password = ''bcrypt:correct horse'', role = ''admin'', mfaSecret = ''JBSWY3DP'',
      mfaEnabled = True, mfaVerified = False,
      encryptionSalt = Some (to_hex (replicate 32 5)),
      ecdhPublicKey = Some ''public-key'', ecdhPrivateKey = Some ''private-key'',
      lastLogin = None, loginAttempts = 0, lockUntil = None,
      user_createdAt = 100, user_updatedAt = 100\<rparr>"

text \<open>Consecutive \<open>register\<close> requests, the \<open>n\<close>-th at time \<open>100 * n\<close>: the
  collection they leave.\<close>

fun register_each :: "nat \<Rightarrow> user list \<Rightarrow> register_body list \<Rightarrow> user list" where
  "register_each n us [] = us"
| "register_each n us (b # bs) =
     register_each (Suc n) (fst (snd (register (reg_env n) (100 * int n) us b))) bs"


definition deleted_file :: stored_file where
  "deleted_file = hello_file\<lparr>isDeleted := True, deletedAt := Some 2000, updatedAt := 2000\<rparr>"


section \<open>Properties\<close>

lemma first_byte_replicate: "0 < n \<Longrightarrow> first_byte (replicate n b) = b"
  by (cases n) simp_all

lemma hex_val_hex_digit: "n < 16 \<Longrightarrow> hex_val (hex_digit n) = Some n"
proof -
  assume "n < 16"
  then consider "n = 0" | "n = 1" | "n = 2" | "n = 3" | "n = 4" | "n = 5" | "n = 6"
    | "n = 7" | "n = 8" | "n = 9" | "n = 10" | "n = 11" | "n = 12" | "n = 13"
    | "n = 14" | "n = 15"
    by atomize_elim arith
  then show ?thesis
    by cases (simp_all add: hex_val_def hex_digit_def)
qed

lemma from_hex_byte: "from_hex (byte_to_hex b @ cs) = b # from_hex cs"
proof -
  have "unat b < 2 ^ LENGTH(8)" by (rule unsigned_less)
  then have hi: "unat b div 16 < 16" by simp
  have lo: "unat b mod 16 < 16" by simp
  have "word_of_nat (16 * (unat b div 16) + unat b mod 16) = b"
    by simp
  then show ?thesis
    by (simp add: byte_to_hex_def hex_val_hex_digit [OF hi] hex_val_hex_digit [OF lo])
qed

lemma from_hex_to_hex: "from_hex (to_hex bs) = bs"
  by (induction bs) (simp_all add: to_hex_def from_hex_byte)


subsection \<open>Digest and verification\<close>

lemma to_hex_inject: "to_hex a = to_hex b \<longleftrightarrow> a = b"
  by (metis from_hex_to_hex)

text \<open>
  Claim C7, as stated, asks that \<open>verifyIntegrity(P', calculateHash(P))\<close> be
  \<open>false\<close> for every \<open>P'\<close> other than \<open>P\<close>. No digest function can do that:
  the answer \<open>false\<close> needs two digests of the same length that differ, so the digest
  would map the infinitely many byte sequences one-to-one into the finitely many
  byte sequences of one length.
\<close>

theorem verifyIntegrity_not_complete:
  "\<not> (\<exists>pr. \<forall>P P'. P' \<noteq> P \<longrightarrow> verifyIntegrity pr P' (calculateHash pr P) = Inr False)"
proof
  assume "\<exists>pr. \<forall>P P'. P' \<noteq> P \<longrightarrow> verifyIntegrity pr P' (calculateHash pr P) = Inr False"
  then obtain pr where H: "\<And>P P'. P' \<noteq> P \<Longrightarrow> verifyIntegrity pr P' (calculateHash pr P) = Inr False"
    by blast
  define h where "h = sha256 pr"
  have eq: "verifyIntegrity pr P' (calculateHash pr P) = timingSafeEqual (h P') (h P)" for P P'
    by (simp add: verifyIntegrity_def calculateHash_def from_hex_to_hex h_def)
  have diff: "length (h P') = length (h P) \<and> h P' \<noteq> h P" if "P' \<noteq> P" for P P'
    using H [OF that] by (auto simp: eq timingSafeEqual_def split: if_splits)
  have "inj h"
    using diff by (auto simp: inj_def)
  moreover have "range h \<subseteq> {t. set t \<subseteq> UNIV \<and> length t = length (h [])}"
    using diff by (metis (mono_tags, lifting) image_subsetI mem_Collect_eq subset_UNIV)
  then have "finite (range h)"
    using finite_lists_length_eq [of "UNIV :: 8 word set"] by (meson finite_subset finite)
  ultimately have "finite (UNIV :: bytes set)"
    by (rule finite_imageD [rotated])
  then show False
    using infinite_UNIV_listI by blast
qed

text \<open>
  Claim C7, amended: the digest is a function of the content alone; a content
  verifies against its own digest; and, the digest having 32 bytes, another content
  verifies against it exactly when its digest is the same, so the answer is
  \<open>false\<close> for every content with a different digest.
\<close>

theorem calculateHash_verifyIntegrity:
  assumes "\<forall>b. length (sha256 pr b) = 32"
  shows "calculateHash pr P = calculateHash pr P \<and>
         verifyIntegrity pr P (calculateHash pr P) = Inr True \<and>
         verifyIntegrity pr P' (calculateHash pr P) =
           Inr (calculateHash pr P' = calculateHash pr P)"
  using assms
  by (simp add: verifyIntegrity_def timingSafeEqual_def calculateHash_def from_hex_to_hex
      to_hex_inject)

theorem calculateHash_verifyIntegrity_witness:
  "(\<forall>b. length (sha256 sample_prims b) = 32) \<and>
   verifyIntegrity sample_prims [1, 2] (calculateHash sample_prims [1, 2]) = Inr True \<and>
   verifyIntegrity sample_prims [2, 2] (calculateHash sample_prims [1, 2]) = Inr False \<and>
   verifyIntegrity sample_prims [1, 3] (calculateHash sample_prims [1, 2]) = Inr True"
proof -
  have len: "\<forall>b. length (sha256 sample_prims b) = 32"
    by (simp add: sample_prims_def)
  have ne: "calculateHash sample_prims [2, 2] \<noteq> calculateHash sample_prims [1, 2]"
    by (simp add: calculateHash_def sample_prims_def to_hex_inject)
  have eq: "calculateHash sample_prims [1, 3] = calculateHash sample_prims [1, 2]"
    by (simp add: calculateHash_def sample_prims_def)
  show ?thesis
    using len ne eq
      calculateHash_verifyIntegrity [OF len, of "[1, 2]" "[2, 2]"]
      calculateHash_verifyIntegrity [OF len, of "[1, 2]" "[1, 3]"]
    by simp
qed


subsection \<open>Encryption and decryption\<close>





lemma sample_gcm_inverts: "gcm_inverts sample_prims"
  by (simp add: gcm_inverts_def sample_prims_def sample_gcm_encrypt_def sample_gcm_decrypt_def
      sample_tag_def Let_def o_def)





subsection \<open>Login, lockout and the second factor\<close>





lemma login_unknown:
  assumes "User_findOne (\<lambda>v. email v = em) us = None" "em \<noteq> []" "pw \<noteq> []"
  shows "login pr now us (Some em) (Some pw) =
     (Json 401 False ''Invalid credentials.'' None, us, [Compare pw dummy_hash])"
  using assms by (simp add: login_def)


text \<open>The counter is positive after every failed attempt, so a lock is never held
  with counter 0: \<open>verifyMFA\<close> and \<open>unlockUser\<close> clear both together.\<close>

lemma incrementLoginAttempts_positive:
  "0 \<le> loginAttempts u \<Longrightarrow> 0 < loginAttempts (incrementLoginAttempts now u)"
  by (simp add: incrementLoginAttempts_def split: option.split)










subsection \<open>The wrapped key survives its JSON text\<close>

lemma plain_text_to_hex: "plain_text (to_hex bs)"
proof -
  define H where "H = set ''0123456789abcdef''"
  have dig: "hex_digit n \<in> H" if "n < 16" for n
    unfolding H_def hex_digit_def using that by (intro nth_mem) simp
  have "set (byte_to_hex b) \<subseteq> H" for b :: "8 word"
  proof -
    have "unat b < 2 ^ LENGTH(8)" by (rule unsigned_less)
    then have "unat b div 16 < 16" by simp
    then show ?thesis
      by (simp add: byte_to_hex_def dig)
  qed
  then have "set (to_hex bs) \<subseteq> H"
    by (auto simp: to_hex_def)
  moreover have "dquote \<notin> H" "CHR 0x5C \<notin> H"
    by (simp_all add: H_def dquote_def)
  ultimately show ?thesis
    by (auto simp: plain_text_def)
qed

lemma read_text_json_text:
  assumes "plain_text t"
  shows "read_text (json_text t @ r) = Some (t, r)"
proof -
  have all: "\<forall>x \<in> set t. x \<noteq> dquote"
    using assms by (auto simp: plain_text_def)
  have d: "dropWhile (\<lambda>x. x \<noteq> dquote) (t @ dquote # r) = dquote # r"
    using all by (simp add: dropWhile_append3)
  have k: "takeWhile (\<lambda>x. x \<noteq> dquote) (t @ dquote # r) = t"
    using all by (simp add: takeWhile_append2)
  show ?thesis
    using assms by (simp add: read_text_def json_text_def d k plain_text_def)
qed

lemma expect_append: "expect p (p @ r) = Some r"
  by (simp add: expect_def)

lemma read_member_json:
  assumes "plain_text name" "plain_text t"
  shows "read_member name (json_text name @ '':'' @ json_text t @ r) = Some (t, r)"
  using assms read_text_json_text [of name "'':'' @ json_text t @ r"] read_text_json_text [of t r]
    expect_append [of "'':''" "json_text t @ r"]
  by (simp add: read_member_def)

lemma JSON_parse_stringify:
  assumes "plain_text (wk_data w)" "plain_text (wk_iv w)" "plain_text (wk_authTag w)"
  shows "JSON_parse_key (JSON_stringify_key w) = Some w"
proof -
  have n: "plain_text ''data''" "plain_text ''iv''" "plain_text ''authTag''"
    by (simp_all add: plain_text_def dquote_def)
  have 1: "expect ''{'' (JSON_stringify_key w) = Some (json_text ''data'' @ '':'' @ json_text (wk_data w) @ '','' @
     json_text ''iv'' @ '':'' @ json_text (wk_iv w) @ '','' @
     json_text ''authTag'' @ '':'' @ json_text (wk_authTag w) @ ''}'')"
    unfolding JSON_stringify_key_def by (rule expect_append)
  show ?thesis
    unfolding JSON_parse_key_def 1
    using read_member_json [OF n(1) assms(1)] read_member_json [OF n(2) assms(2)]
      read_member_json [OF n(3) assms(3)] expect_append [of "'',''"]
    by simp
qed

subsection \<open>The password download\<close>

lemma downloadFile_pipeline:
  assumes "File_findById i fs = Some f" "\<not> download_denied ru f"
    and "js_or bpw hpw = Some pw" "pw \<noteq> []" "resolve_salt us f = Some s"
  shows "downloadFile pr now us fs bl ru i bpw hpw = download_with_salt pr now fs bl ru f pw s"
  using assms by (simp add: downloadFile_def)

lemma File_findById_fid: "File_findById i fs = Some f \<Longrightarrow> fid f = i \<and> \<not> isDeleted f \<and> f \<in> set fs"
  by (auto simp: File_findById_def File_findOne_def find_Some_iff)



subsection \<open>The sample upload, computed\<close>

lemmas sample_simps = sample_prims_def sample_gcm_encrypt_def sample_gcm_decrypt_def
  sample_tag_def first_byte_replicate KEY_LENGTH_def IV_LENGTH_def ITERATIONS_def Let_def

lemma hello_upload_eq:
  "hello_upload =
     (Json 201 True ''File uploaded and encrypted successfully.''
        (Some (Uploaded 1 ''hello.txt'' 9 ''public'' 1000 (take 16 (to_hex (replicate 32 0x51)) @ ''...''))),
      [hello_file], [''u1.enc'' \<mapsto> hello_cipher],
      [file_audit alice ''FILE_UPLOAD'' hello_file ''SUCCESS''
         [(''filename'', ''hello.txt''), (''accessLevel'', ''public''),
          (''algorithm'', ''AES-256-GCM'')]])"
  by (simp add: hello_upload_def uploadFile_def upload_document_def hello_def hello_env_def hello_file_def
      hello_cipher_def alice_def bob_def User_findById_def User_findOne_def js_or_def
      calculateHash_def encryptFile_def encryptKey_def deriveKey_def generateSalt_def
      from_hex_to_hex sample_simps file_validates_def)

lemma hello_files_eq: "hello_files = [hello_file]"
  by (simp add: hello_files_def hello_upload_eq)

lemma hello_blobs_eq: "hello_blobs = [''u1.enc'' \<mapsto> hello_cipher]"
  by (simp add: hello_blobs_def hello_upload_eq)

lemma hello_find: "File_findById 1 [hello_file] = Some hello_file"
  by (simp add: File_findById_def File_findOne_def hello_file_def)

lemma hello_access: "\<not> download_denied bob hello_file"
  by (simp add: download_denied_def hello_file_def)





lemma hello_decrypt:
  "decryptFile sample_prims hello_cipher (from_hex (iv hello_file)) (from_hex (authTag hello_file))
     (replicate 32 7) = Inr (buffer hello)"
  by (simp add: decryptFile_def hello_file_def hello_cipher_def hello_def from_hex_to_hex sample_simps)


lemma hello_verify:
  "verifyIntegrity sample_prims (buffer hello) (sha256Hash hello_file) = Inr True"
  by (simp add: verifyIntegrity_def timingSafeEqual_def calculateHash_def hello_file_def
      hello_def from_hex_to_hex sample_simps)

subsection \<open>The password download on the sample\<close>





subsection \<open>Upload, then download\<close>

lemma encryptFile_Inr:
  "encryptFile pr v P K = Inr r \<Longrightarrow>
     length K = KEY_LENGTH \<and> enc_iv r = v \<and>
     gcm_encrypt pr K v P = (encryptedData r, enc_authTag r)"
  by (auto simp: encryptFile_def split: if_splits prod.splits)

lemma decrypt_encrypted:
  assumes "gcm_inverts pr" "encryptFile pr v P K = Inr r" "length v = IV_LENGTH"
  shows "decryptFile pr (encryptedData r) v (enc_authTag r) K = Inr P"
proof -
  note e = encryptFile_Inr [OF assms(2)]
  have "gcm_decrypt pr K v (enc_authTag r) (encryptedData r) = Plain P"
    using assms(1,3) e unfolding gcm_inverts_def by (metis fst_conv snd_conv)
  then show ?thesis
    using e by (simp add: decryptFile_def)
qed

lemma resolve_salt_own:
  "truthy (fileSalt f) \<Longrightarrow> resolve_salt us f = fileSalt f"
  by (simp add: resolve_salt_def)

lemma File_findById_append_new:
  assumes "\<forall>g \<in> set fs. fid g \<noteq> i" "fid f = i" "\<not> isDeleted f"
  shows "File_findById i (fs @ [f]) = Some f"
  using assms by (induction fs) (auto simp: File_findById_def File_findOne_def)

lemma to_hex_Nil_iff: "to_hex bs = [] \<longleftrightarrow> bs = []"
  by (cases bs) (simp_all add: to_hex_def byte_to_hex_def)

lemma upload_then_download:
  assumes inv: "gcm_inverts pr"
    and ivs: "length (fresh_file_iv env) = IV_LENGTH" "length (fresh_key_iv env) = IV_LENGTH"
    and salt: "fresh_salt env \<noteq> []"
    and up: "uploadFile pr env t0 us0 fs0 bl0 uploader (Some up) al desc upw uhw
               = (Json 201 True msg d, fs1, bl1, eff)"
    and fresh: "\<forall>g \<in> set fs0. fid g \<noteq> new_fid env"
    and pw: "js_or upw uhw = Some pw"
  shows "\<exists>f. File_findById (new_fid env) fs1 = Some f \<and>
              fileSalt f = Some (generateSalt (fresh_salt env)) \<and> owner f = uid uploader \<and>
              (\<forall>us ru now bpw hpw. \<not> download_denied ru f \<longrightarrow> js_or bpw hpw = Some pw \<longrightarrow>
                 list_all (\<lambda>h. valid_header_value pr (snd h)) (download_headers f) \<longrightarrow>
                 downloadFile pr now us fs1 bl1 ru (new_fid env) bpw hpw =
                   (Send 200 (download_headers f) (buffer up),
                    File_save now (f\<lparr>downloadCount := downloadCount f + 1\<rparr>) fs1,
                    [file_audit ru ''INTEGRITY_CHECK_PASSED'' f ''SUCCESS'' [],
                     file_audit ru ''FILE_DOWNLOAD'' (f\<lparr>downloadCount := downloadCount f + 1\<rparr>)
                       ''SUCCESS'' [(''filename'', originalName f)]]))"
proof -
  let ?salt = "generateSalt (fresh_salt env)"
  let ?hash = "calculateHash pr (buffer up)"
  from up pw obtain encFile ek where
    ef: "encryptFile pr (fresh_file_iv env) (buffer up) (fresh_fileKey env) = Inr encFile"
    and pwn: "pw \<noteq> []"
    and ek: "encryptKey pr (fresh_key_iv env) (fresh_fileKey env) (deriveKey pr pw ?salt) = Inr ek"
    and fs1: "fs1 = fs0 @ [upload_document env t0 uploader up al desc ?hash encFile ek ?salt]"
    and bl1: "bl1 = bl0(uuid env @ ''.enc'' \<mapsto> encryptedData encFile)"
    by (auto simp: uploadFile_def Let_def split: option.splits if_splits sum.splits)
  let ?f = "upload_document env t0 uploader up al desc ?hash encFile ek ?salt"
  have found: "File_findById (new_fid env) fs1 = Some ?f"
    unfolding fs1 using fresh by (intro File_findById_append_new) (simp_all add: upload_document_def)
  have tr: "truthy (fileSalt ?f)"
    using salt by (simp add: upload_document_def generateSalt_def to_hex_Nil_iff)
  have rs: "resolve_salt us ?f = Some ?salt" for us
    using resolve_salt_own [OF tr] by (simp add: upload_document_def)
  have parse: "JSON_parse_key (encryptedKey ?f) =
      Some \<lparr>wk_data = to_hex (encryptedData ek), wk_iv = to_hex (enc_iv ek),
            wk_authTag = to_hex (enc_authTag ek)\<rparr>"
    by (simp add: upload_document_def JSON_parse_stringify plain_text_to_hex)
  have kiv: "enc_iv ek = fresh_key_iv env" and fiv: "enc_iv encFile = fresh_file_iv env"
    using encryptFile_Inr [OF ef] encryptFile_Inr [OF ek [unfolded encryptKey_def]] by simp_all
  have unwrap: "decryptKey pr (encryptedData ek) (enc_iv ek) (enc_authTag ek) (deriveKey pr pw ?salt)
      = Inr (fresh_fileKey env)"
    using decrypt_encrypted [OF inv ek [unfolded encryptKey_def] ivs(2)]
    by (simp add: decryptKey_def kiv)
  have dec: "decryptFile pr (encryptedData encFile) (enc_iv encFile) (enc_authTag encFile)
      (fresh_fileKey env) = Inr (buffer up)"
    using decrypt_encrypted [OF inv ef ivs(1)] by (simp add: fiv)
  have ver: "verifyIntegrity pr (buffer up) ?hash = Inr True"
    by (simp add: verifyIntegrity_def timingSafeEqual_def)
  have blob: "bl1 (encryptedPath ?f) = Some (encryptedData encFile)"
    by (simp add: bl1 upload_document_def)
  have fields: "iv ?f = to_hex (enc_iv encFile)" "authTag ?f = to_hex (enc_authTag encFile)"
    "sha256Hash ?f = ?hash"
    by (simp_all add: upload_document_def)
  have dws: "download_with_salt pr now fs1 bl1 ru ?f pw ?salt =
      (Send 200 (download_headers ?f) (buffer up),
       File_save now (?f\<lparr>downloadCount := downloadCount ?f + 1\<rparr>) fs1,
       [file_audit ru ''INTEGRITY_CHECK_PASSED'' ?f ''SUCCESS'' [],
        file_audit ru ''FILE_DOWNLOAD'' (?f\<lparr>downloadCount := downloadCount ?f + 1\<rparr>)
          ''SUCCESS'' [(''filename'', originalName ?f)]])"
    if "list_all (\<lambda>h. valid_header_value pr (snd h)) (download_headers ?f)" for now ru
    using that
    by (simp add: download_with_salt_def parse from_hex_to_hex unwrap blob fields dec ver Let_def)
  show ?thesis
  proof (intro exI [of _ ?f] conjI allI impI)
    show "File_findById (new_fid env) fs1 = Some ?f" by (rule found)
    show "fileSalt ?f = Some ?salt" by (simp add: upload_document_def)
    show "owner ?f = uid uploader" by (simp add: upload_document_def)
  next
    fix us ru now bpw hpw
    assume "\<not> download_denied ru ?f" and "js_or bpw hpw = Some pw"
      and "list_all (\<lambda>h. valid_header_value pr (snd h)) (download_headers ?f)"
    then show "downloadFile pr now us fs1 bl1 ru (new_fid env) bpw hpw =
       (Send 200 (download_headers ?f) (buffer up),
        File_save now (?f\<lparr>downloadCount := downloadCount ?f + 1\<rparr>) fs1,
        [file_audit ru ''INTEGRITY_CHECK_PASSED'' ?f ''SUCCESS'' [],
         file_audit ru ''FILE_DOWNLOAD'' (?f\<lparr>downloadCount := downloadCount ?f + 1\<rparr>)
           ''SUCCESS'' [(''filename'', originalName ?f)]])"
      using downloadFile_pipeline [OF found _ _ pwn rs] dws by simp
  qed
qed

text \<open>
  Claim C6. Salt resolution on the password path has two variants and fails closed.
  \<^item> A file with a salt of its own: the answer does not depend on the user
    collection at all; and a file stored by \<open>uploadFile\<close> is decrypted for every
    caller whom the access check admits and who gives the upload password, whatever
    the user collection holds at that time (AES-256-GCM giving back what it
    encrypted, and the headers of the answer being sendable).
  \<^item> A legacy file without a salt of its own: the master key is derived from the
    salt of the owner's account.
  \<^item> Neither salt: the answer is 500 \<open>File encryption metadata missing.\<close>, nothing
    is decrypted, written or audited.
  Here a salt "exists" when it is a non-empty text, as the test \<open>!saltToUse\<close> has
  it.
\<close>

theorem downloadFile_salt_resolution:
  "(File_findById i fs = Some f \<longrightarrow> truthy (fileSalt f) \<longrightarrow>
      downloadFile pr now us fs bl ru i bpw hpw = downloadFile pr now us' fs bl ru i bpw hpw) \<and>
   (gcm_inverts pr \<longrightarrow> length (fresh_file_iv env) = IV_LENGTH \<longrightarrow>
      length (fresh_key_iv env) = IV_LENGTH \<longrightarrow> fresh_salt env \<noteq> [] \<longrightarrow>
      uploadFile pr env t0 us0 fs0 bl0 uploader (Some up) al desc upw uhw
        = (Json 201 True msg d, fs1, bl1, eff) \<longrightarrow>
      (\<forall>g \<in> set fs0. fid g \<noteq> new_fid env) \<longrightarrow>
      js_or upw uhw = Some pw1 \<longrightarrow> js_or bpw1 hpw1 = Some pw1 \<longrightarrow>
      File_findById (new_fid env) fs1 = Some f1 \<longrightarrow> \<not> download_denied ru1 f1 \<longrightarrow>
      list_all (\<lambda>h. valid_header_value pr (snd h)) (download_headers f1) \<longrightarrow>
      (\<exists>fs2 eff2. downloadFile pr now1 us1 fs1 bl1 ru1 (new_fid env) bpw1 hpw1
          = (Send 200 (download_headers f1) (buffer up), fs2, eff2))) \<and>
   (File_findById i fs = Some f \<longrightarrow> \<not> download_denied ru f \<longrightarrow> js_or bpw hpw = Some pw \<longrightarrow>
      pw \<noteq> [] \<longrightarrow> \<not> truthy (fileSalt f) \<longrightarrow>
      (\<forall>ow s. User_findById (owner f) us = Some ow \<longrightarrow> encryptionSalt ow = Some s \<longrightarrow> s \<noteq> [] \<longrightarrow>
         downloadFile pr now us fs bl ru i bpw hpw = download_with_salt pr now fs bl ru f pw s) \<and>
      ((\<forall>ow. User_findById (owner f) us = Some ow \<longrightarrow> \<not> truthy (encryptionSalt ow)) \<longrightarrow>
         downloadFile pr now us fs bl ru i bpw hpw =
           (Json 500 False ''File encryption metadata missing.'' None, fs, [])))"
proof (intro conjI impI allI)
  assume found: "File_findById i fs = Some f" and "truthy (fileSalt f)"
  then have eq: "resolve_salt us f = resolve_salt us' f"
    by (simp add: resolve_salt_own)
  show "downloadFile pr now us fs bl ru i bpw hpw = downloadFile pr now us' fs bl ru i bpw hpw"
    by (cases "js_or bpw hpw") (simp_all add: downloadFile_def found eq)
next
  assume a: "gcm_inverts pr" "length (fresh_file_iv env) = IV_LENGTH"
    "length (fresh_key_iv env) = IV_LENGTH" "fresh_salt env \<noteq> []"
    "uploadFile pr env t0 us0 fs0 bl0 uploader (Some up) al desc upw uhw
        = (Json 201 True msg d, fs1, bl1, eff)"
    "\<forall>g \<in> set fs0. fid g \<noteq> new_fid env" "js_or upw uhw = Some pw1"
    and b: "js_or bpw1 hpw1 = Some pw1" "File_findById (new_fid env) fs1 = Some f1"
    "\<not> download_denied ru1 f1"
    "list_all (\<lambda>h. valid_header_value pr (snd h)) (download_headers f1)"
  from upload_then_download [OF a] b
  show "\<exists>fs2 eff2. downloadFile pr now1 us1 fs1 bl1 ru1 (new_fid env) bpw1 hpw1
          = (Send 200 (download_headers f1) (buffer up), fs2, eff2)"
    by fastforce
next
  fix ow s
  assume "File_findById i fs = Some f" "\<not> download_denied ru f" "js_or bpw hpw = Some pw"
    "pw \<noteq> []" "\<not> truthy (fileSalt f)" "User_findById (owner f) us = Some ow"
    "encryptionSalt ow = Some s" "s \<noteq> []"
  then show "downloadFile pr now us fs bl ru i bpw hpw = download_with_salt pr now fs bl ru f pw s"
    by (simp add: downloadFile_def resolve_salt_def)
next
  assume "File_findById i fs = Some f" "\<not> download_denied ru f" "js_or bpw hpw = Some pw"
    "pw \<noteq> []" "\<not> truthy (fileSalt f)"
    "\<forall>ow. User_findById (owner f) us = Some ow \<longrightarrow> \<not> truthy (encryptionSalt ow)"
  then show "downloadFile pr now us fs bl ru i bpw hpw =
           (Json 500 False ''File encryption metadata missing.'' None, fs, [])"
    by (simp add: downloadFile_def resolve_salt_def split: option.splits)
qed

lemma legacy_fields:
  "fid legacy_file = 1" "fileSalt legacy_file = None" "owner legacy_file = 1"
  "encryptedPath legacy_file = ''u1.enc''" "iv legacy_file = iv hello_file"
  "authTag legacy_file = authTag hello_file" "sha256Hash legacy_file = sha256Hash hello_file"
  "accessLevel legacy_file = ''public''" "isDeleted legacy_file = False"
  by (simp_all add: legacy_file_def hello_file_def)

lemma legacy_parse:
  "JSON_parse_key (encryptedKey legacy_file) =
     Some \<lparr>wk_data = to_hex (replicate 32 0x1F), wk_iv = to_hex (replicate 12 2),
           wk_authTag = to_hex (replicate 16 0x57)\<rparr>"
  by (simp add: legacy_file_def JSON_parse_stringify plain_text_to_hex)

lemma legacy_unwrap:
  "decryptKey sample_prims (from_hex (to_hex (replicate 32 0x1F))) (from_hex (to_hex (replicate 12 2)))
     (from_hex (to_hex (replicate 16 0x57)))
     (deriveKey sample_prims ''Sup3rSecret!'' ''0a0b'') = Inr (replicate 32 7)"
  by (simp add: decryptKey_def decryptFile_def deriveKey_def from_hex_to_hex sample_simps
      hex_val_def)

lemma legacy_download:
  "fst (download_with_salt sample_prims 5000 [legacy_file] [''u1.enc'' \<mapsto> hello_cipher] bob
          legacy_file ''Sup3rSecret!'' ''0a0b'')
     = Send 200 (download_headers legacy_file) (buffer hello)"
proof -
  have hdr: "list_all (\<lambda>h. valid_header_value sample_prims (snd h)) (download_headers legacy_file)"
    by (simp add: download_headers_def sample_prims_def legacy_file_def hello_file_def
        json_text_def dquote_def)
  show ?thesis
    by (simp add: download_with_salt_def legacy_parse legacy_unwrap legacy_fields hello_decrypt
        hello_verify hdr Let_def)
qed

theorem downloadFile_salt_resolution_witness:
  "File_findById 1 [hello_file] = Some hello_file \<and> truthy (fileSalt hello_file) \<and>
   downloadFile sample_prims 5000 [alice, bob] [hello_file] [''u1.enc'' \<mapsto> hello_cipher] bob 1
       (Some ''Sup3rSecret!'') None =
     downloadFile sample_prims 5000 [] [hello_file] [''u1.enc'' \<mapsto> hello_cipher] bob 1
       (Some ''Sup3rSecret!'') None \<and>
   gcm_inverts sample_prims \<and>
   (\<exists>fs2 eff2. downloadFile sample_prims 5000 [] hello_files hello_blobs bob 1
        (Some ''Sup3rSecret!'') None
      = (Send 200 (download_headers hello_file) (buffer hello), fs2, eff2)) \<and>
   File_findById 1 [legacy_file] = Some legacy_file \<and> \<not> truthy (fileSalt legacy_file) \<and>
   User_findById (owner legacy_file) [alice, bob] = Some alice \<and>
   encryptionSalt alice = Some ''0a0b'' \<and>
   fst (downloadFile sample_prims 5000 [alice, bob] [legacy_file] [''u1.enc'' \<mapsto> hello_cipher]
          bob 1 (Some ''Sup3rSecret!'') None)
     = Send 200 (download_headers legacy_file) (buffer hello) \<and>
   downloadFile sample_prims 5000 [bob] [legacy_file] [''u1.enc'' \<mapsto> hello_cipher] bob 1
       (Some ''Sup3rSecret!'') None
     = (Json 500 False ''File encryption metadata missing.'' None, [legacy_file], [])"
proof -
  have tr: "truthy (fileSalt hello_file)"
    by (simp add: hello_file_def to_hex_Nil_iff)
  have pw: "js_or (Some ''Sup3rSecret!'') None = Some ''Sup3rSecret!''"
    by (simp add: js_or_def)
  have pwn: "''Sup3rSecret!'' \<noteq> []"
    by simp
  have own: "downloadFile sample_prims 5000 [alice, bob] [hello_file] [''u1.enc'' \<mapsto> hello_cipher]
       bob 1 (Some ''Sup3rSecret!'') None =
     downloadFile sample_prims 5000 [] [hello_file] [''u1.enc'' \<mapsto> hello_cipher] bob 1
       (Some ''Sup3rSecret!'') None"
    using downloadFile_salt_resolution [where i = 1 and fs = "[hello_file]" and f = hello_file
        and pr = sample_prims and now = 5000 and us = "[alice, bob]" and us' = "[]"
        and bl = "[''u1.enc'' \<mapsto> hello_cipher]" and ru = bob
        and bpw = "Some ''Sup3rSecret!''" and hpw = None,
        THEN conjunct1, rule_format, OF hello_find tr] .
  have iv1: "length (fresh_file_iv hello_env) = IV_LENGTH"
    and iv2: "length (fresh_key_iv hello_env) = IV_LENGTH"
    and sl: "fresh_salt hello_env \<noteq> []"
    and nf: "new_fid hello_env = 1"
    by (simp_all add: hello_env_def IV_LENGTH_def)
  have fr: "g \<in> set [] \<Longrightarrow> fid g \<noteq> new_fid hello_env" for g :: stored_file
    by simp
  have find1: "File_findById (new_fid hello_env) [hello_file] = Some hello_file"
    by (simp only: nf hello_find)
  have hdr: "list_all (\<lambda>h. valid_header_value sample_prims (snd h)) (download_headers hello_file)"
    by (simp add: download_headers_def sample_prims_def hello_file_def json_text_def dquote_def)
  have "\<exists>fs2 eff2. downloadFile sample_prims 5000 [] [hello_file] [''u1.enc'' \<mapsto> hello_cipher] bob
        (new_fid hello_env) (Some ''Sup3rSecret!'') None
      = (Send 200 (download_headers hello_file) (buffer hello), fs2, eff2)"
    using downloadFile_salt_resolution [where pr = sample_prims and env = hello_env
        and ?t0.0 = 1000 and ?us0.0 = "[alice, bob]" and ?fs0.0 = "[]" and ?bl0.0 = Map.empty
        and uploader = alice and up = hello and al = "Some ''public''" and desc = None
        and upw = "Some ''Sup3rSecret!''" and uhw = None and ?fs1.0 = "[hello_file]"
        and ?bl1.0 = "[''u1.enc'' \<mapsto> hello_cipher]" and ?pw1.0 = "''Sup3rSecret!''"
        and ?bpw1.0 = "Some ''Sup3rSecret!''" and ?hpw1.0 = None and ?f1.0 = hello_file
        and ?ru1.0 = bob and ?now1.0 = 5000 and ?us1.0 = "[]",
        THEN conjunct2, THEN conjunct1, rule_format,
        OF sample_gcm_inverts iv1 iv2 sl hello_upload_eq [unfolded hello_upload_def] fr pw pw
          find1 hello_access hdr] .
  then have up: "\<exists>fs2 eff2. downloadFile sample_prims 5000 [] hello_files hello_blobs bob 1
        (Some ''Sup3rSecret!'') None
      = (Send 200 (download_headers hello_file) (buffer hello), fs2, eff2)"
    by (simp only: nf hello_files_eq hello_blobs_eq)
  have lf: "File_findById 1 [legacy_file] = Some legacy_file"
    by (simp add: File_findById_def File_findOne_def legacy_fields)
  have la: "\<not> download_denied bob legacy_file"
    by (simp add: download_denied_def legacy_fields)
  have lt: "\<not> truthy (fileSalt legacy_file)"
    by (simp add: legacy_fields)
  have lo: "User_findById (owner legacy_file) [alice, bob] = Some alice"
    by (simp add: User_findById_def User_findOne_def legacy_fields alice_def)
  have ls: "encryptionSalt alice = Some ''0a0b''" and lsn: "''0a0b'' \<noteq> []"
    by (simp_all add: alice_def)
  note part3 = downloadFile_salt_resolution [where i = 1 and fs = "[legacy_file]"
      and f = legacy_file and pr = sample_prims and now = 5000
      and bl = "[''u1.enc'' \<mapsto> hello_cipher]" and ru = bob
      and bpw = "Some ''Sup3rSecret!''" and hpw = None and pw = "''Sup3rSecret!''",
      THEN conjunct2, THEN conjunct2, rule_format, OF lf la pw pwn lt]
  have "downloadFile sample_prims 5000 [alice, bob] [legacy_file] [''u1.enc'' \<mapsto> hello_cipher]
          bob 1 (Some ''Sup3rSecret!'') None
     = download_with_salt sample_prims 5000 [legacy_file] [''u1.enc'' \<mapsto> hello_cipher] bob
          legacy_file ''Sup3rSecret!'' ''0a0b''"
    using part3 [where us = "[alice, bob]", THEN conjunct1, rule_format, OF lo ls lsn] .
  then have legacy: "fst (downloadFile sample_prims 5000 [alice, bob] [legacy_file]
          [''u1.enc'' \<mapsto> hello_cipher] bob 1 (Some ''Sup3rSecret!'') None)
     = Send 200 (download_headers legacy_file) (buffer hello)"
    by (simp add: legacy_download)
  have noowner: "User_findById (owner legacy_file) [bob] = Some ow \<Longrightarrow>
      \<not> truthy (encryptionSalt ow)" for ow
    by (simp add: User_findById_def User_findOne_def legacy_fields bob_def)
  have neither: "downloadFile sample_prims 5000 [bob] [legacy_file] [''u1.enc'' \<mapsto> hello_cipher]
       bob 1 (Some ''Sup3rSecret!'') None
     = (Json 500 False ''File encryption metadata missing.'' None, [legacy_file], [])"
    using part3 [where us = "[bob]", THEN conjunct2, rule_format, OF noowner] .
  show ?thesis
    using hello_find tr own sample_gcm_inverts up lf lt lo ls legacy neither
    by (intro conjI)
qed

subsection \<open>The key-exchange download\<close>




subsection \<open>The single administrator and the soft delete\<close>

lemmas register_simps = register_def admin_request_def reg_env_def root_user_def
  User_findOne_def generateSalt_def user_audit_def Let_def

text \<open>
  Claim C1 is not what \<open>register\<close> does. The comment above the check says that a
  second request for the role \<open>admin\<close> is downgraded to \<open>guest\<close>; the code
  answers it 400 and creates no account. So of five requests for \<open>admin\<close> the first
  creates the administrator and the other four create nothing. And
  \<open>updateUserRole\<close> gives the role \<open>admin\<close> to a second account without any
  check, so two accounts can hold it.
\<close>

theorem register_admin_rejected_not_downgraded:
  "register (reg_env 1) 100 [] (admin_request ''root'') =
     (Json 201 True ''Registration successful. Please set up MFA.''
        (Some (Registered 1 ''root'' ''root@example.org'' ''admin'' ''JBSWY3DP'')),
      [root_user], [user_audit root_user ''USER_CREATED'' ''SUCCESS'' []]) \<and>
   register (reg_env 2) 200 [root_user] (admin_request ''mallory'') =
     (Json 400 False ''Admin account already exists. Only one admin is allowed.'' None,
      [root_user], []) \<and>
   map role (register_each 1 []
      [admin_request ''root'', admin_request ''mallory'', admin_request ''carol'',
       admin_request ''dave'', admin_request ''erin'']) = [''admin''] \<and>
   map role (fst (snd (updateUserRole 300 [root_user, bob] root_user 2 ''admin'')))
     = [''admin'', ''admin'']"
  by (simp add: register_simps updateUserRole_def User_findById_def User_save_def bob_def)

theorem register_admin_rejected_not_downgraded_witness:
  "status (fst (register (reg_env 2) 200 [root_user] (admin_request ''mallory''))) = 400 \<and>
   fst (snd (register (reg_env 2) 200 [root_user] (admin_request ''mallory''))) = [root_user] \<and>
   map role (register_each 1 []
      [admin_request ''root'', admin_request ''mallory'', admin_request ''carol'',
       admin_request ''dave'', admin_request ''erin'']) = [''admin'']"
proof -
  note th = register_admin_rejected_not_downgraded
  have second: "register (reg_env 2) 200 [root_user] (admin_request ''mallory'') =
     (Json 400 False ''Admin account already exists. Only one admin is allowed.'' None,
      [root_user], [])"
    using th by blast
  have five: "map role (register_each 1 []
      [admin_request ''root'', admin_request ''mallory'', admin_request ''carol'',
       admin_request ''dave'', admin_request ''erin'']) = [''admin'']"
    using th by blast
  show ?thesis
    by (simp only: second five fst_conv snd_conv response.sel simp_thms)
qed

text \<open>
  Claim C10 is not what the listing does. After the delete the document is hidden
  from \<open>find\<close>, \<open>findOne\<close> and \<open>findById\<close>, so the download answers 404 and the
  listing holds no entry for it; but \<open>getFiles\<close> takes \<open>pagination.total\<close> from
  \<open>countDocuments\<close>, which the hook on \<open>/^find/\<close> does not reach, and the deleted
  file is counted: the listing differs from the listing of a collection without the
  file.
\<close>

theorem getFiles_counts_deleted_file:
  "deleteFile 2000 [hello_file] [''u1.enc'' \<mapsto> hello_cipher] alice 1 =
     (Json 200 True ''File deleted successfully.'' None, [deleted_file], Map.empty,
      [file_audit alice ''FILE_DELETE'' (hello_file\<lparr>isDeleted := True, deletedAt := Some 2000\<rparr>)
         ''SUCCESS'' [(''filename'', ''hello.txt'')]]) \<and>
   fst (downloadFile sample_prims 3000 [alice, bob] [deleted_file] Map.empty bob 1
          (Some ''Sup3rSecret!'') None) = Json 404 False ''File not found.'' None \<and>
   getFiles [alice, bob] [deleted_file] bob None 1 20 =
     Json 200 True [] (Some \<lparr>l_files = [], l_page = 1, l_limit = 20, l_total = 1\<rparr>) \<and>
   getFiles [alice, bob] [] bob None 1 20 =
     Json 200 True [] (Some \<lparr>l_files = [], l_page = 1, l_limit = 20, l_total = 0\<rparr>)"
  by (simp add: deleteFile_def File_findById_def File_findOne_def not_owner_or_admin_def
      File_save_def deleted_file_def hello_file_def alice_def bob_def downloadFile_def
      getFiles_def File_find_def File_countDocuments_def files_query_def Let_def)

theorem getFiles_counts_deleted_file_witness:
  "l_total (the (data (getFiles [alice, bob] [deleted_file] bob None 1 20))) = 1 \<and>
   l_files (the (data (getFiles [alice, bob] [deleted_file] bob None 1 20))) = [] \<and>
   l_total (the (data (getFiles [alice, bob] [] bob None 1 20))) = 0"
  using getFiles_counts_deleted_file by simp

end
